theory Spec2Isabelle
  imports Main
begin

section \<open>The event card: state of the component\<close>

text \<open>
  The component \<open>EventCard\<close> keeps its state in five \<open>useState\<close> cells. The image
  index is a JavaScript number, here an integer or \<open>NaN\<close>: \<open>Some i\<close> is the integer
  \<open>i\<close>, \<open>None\<close> is \<open>NaN\<close>. Of the configuration row only its presence matters:
  \<open>None\<close> is \<open>null\<close>, \<open>Some c\<close> a row with \<open>primary_color = c\<close>.
\<close>

record CountdownState =
  days :: int
  hrs :: int
  mins :: int
  secs :: int
  isExpired :: bool

record EventCard =
  isExpanded :: bool
  currentImageIndex :: "int option"
  isImageFullscreen :: bool
  countdown :: CountdownState
  config :: "string option"

text \<open>
  \<open>const allImages = image ? [image, ...images] : images\<close>: an absent or empty
  \<open>image\<close> is falsy.
\<close>

definition allImages :: "string option \<Rightarrow> string list \<Rightarrow> string list" where
  "allImages img imgs =
     (case img of
        None \<Rightarrow> imgs
      | Some i \<Rightarrow> if i = [] then imgs else i # imgs)"

section \<open>The image carousel\<close>

text \<open>
  JavaScript's \<open>%\<close> on integers: the result takes the sign of the dividend
  (\<open>rem\<close>, for a divisor that is not zero), and a zero divisor gives \<open>NaN\<close>; no
  exception is raised.
\<close>

definition rem :: "int \<Rightarrow> int \<Rightarrow> int" where
  "rem a b = sgn a * (abs a mod abs b)"

definition js_rem :: "int \<Rightarrow> int \<Rightarrow> int option" where
  "js_rem a b = (if b = 0 then None else Some (rem a b))"

text \<open>
  \<open>setCurrentImageIndex((prev) => (prev + 1) % allImages.length)\<close>. Arithmetic on
  \<open>NaN\<close> gives \<open>NaN\<close>.
\<close>

definition nextImage :: "'a list \<Rightarrow> EventCard \<Rightarrow> EventCard" where
  "nextImage imgs s =
     s\<lparr>currentImageIndex :=
         (case currentImageIndex s of
            None \<Rightarrow> None
          | Some prev \<Rightarrow> js_rem (prev + 1) (int (length imgs)))\<rparr>"

text \<open>
  \<open>setCurrentImageIndex((prev) => prev === 0 ? allImages.length - 1 : prev - 1)\<close>.
  \<open>NaN === 0\<close> is false and \<open>NaN - 1\<close> is \<open>NaN\<close>.
\<close>

definition previousImage :: "'a list \<Rightarrow> EventCard \<Rightarrow> EventCard" where
  "previousImage imgs s =
     s\<lparr>currentImageIndex :=
         (case currentImageIndex s of
            None \<Rightarrow> None
          | Some prev \<Rightarrow> if prev = 0 then Some (int (length imgs) - 1) else Some (prev - 1))\<rparr>"

text \<open>\<open>setIsImageFullscreen(!isImageFullscreen)\<close>.\<close>

definition toggleImageFullscreen :: "EventCard \<Rightarrow> EventCard" where
  "toggleImageFullscreen s = s\<lparr>isImageFullscreen := \<not> isImageFullscreen s\<rparr>"

text \<open>
  The handlers run only from the controls the component renders. Nothing is rendered
  before the configuration row has arrived (\<open>if (!config) return null\<close>, line 123);
  the thumbnail needs \<open>allImages.length > 0\<close> (line 128); the overlay with the close
  button needs \<open>isImageFullscreen && allImages.length > 0\<close> (line 232), and inside it
  the two arrows need \<open>hasMultipleImages\<close>, that is \<open>allImages.length > 1\<close>
  (lines 47 and 241). The expand button is always part of the card (line 211).
\<close>

datatype control = Thumbnail | ExpandButton | PreviousButton | NextButton | CloseButton

fun rendered :: "'a list \<Rightarrow> EventCard \<Rightarrow> control \<Rightarrow> bool" where
  "rendered imgs s Thumbnail = (config s \<noteq> None \<and> length imgs > 0)"
| "rendered imgs s ExpandButton = (config s \<noteq> None)"
| "rendered imgs s PreviousButton =
     (config s \<noteq> None \<and> isImageFullscreen s \<and> length imgs > 0 \<and> length imgs > 1)"
| "rendered imgs s NextButton =
     (config s \<noteq> None \<and> isImageFullscreen s \<and> length imgs > 0 \<and> length imgs > 1)"
| "rendered imgs s CloseButton =
     (config s \<noteq> None \<and> isImageFullscreen s \<and> length imgs > 0)"

fun onClick :: "'a list \<Rightarrow> control \<Rightarrow> EventCard \<Rightarrow> EventCard" where
  "onClick imgs Thumbnail s = toggleImageFullscreen s"
| "onClick imgs ExpandButton s = s\<lparr>isExpanded := \<not> isExpanded s\<rparr>"
| "onClick imgs PreviousButton s = previousImage imgs s"
| "onClick imgs NextButton s = nextImage imgs s"
| "onClick imgs CloseButton s = toggleImageFullscreen s"

text \<open>A click on a control: \<open>None\<close> when the control is not on the page.\<close>

definition click :: "'a list \<Rightarrow> control \<Rightarrow> EventCard \<Rightarrow> EventCard option" where
  "click imgs c s = (if rendered imgs s c then Some (onClick imgs c s) else None)"

text \<open>Any number of arrow presses, in any order.\<close>

datatype nav = Advance | Retreat

fun navigate :: "'a list \<Rightarrow> nav list \<Rightarrow> EventCard \<Rightarrow> EventCard" where
  "navigate imgs [] s = s"
| "navigate imgs (Advance # ns) s = navigate imgs ns (nextImage imgs s)"
| "navigate imgs (Retreat # ns) s = navigate imgs ns (previousImage imgs s)"

section \<open>The countdown\<close>

subsection \<open>Values of the props\<close>

text \<open>
  The props \<open>eventDate\<close> and \<open>eventTime\<close> are declared as strings; the rows come from
  the backend, so a field can also be missing. \<open>Num\<close> stands for a value that is not a
  string (an integral number), the one kind of value on which \<open>eventTime.split\<close>
  raises.
\<close>

datatype jsval = Undefined | Null | Str string | Num int

text \<open>\<open>!v\<close>: the empty string, \<open>0\<close>, \<open>null\<close> and \<open>undefined\<close> are falsy.\<close>

fun falsy :: "jsval \<Rightarrow> bool" where
  "falsy Undefined = True"
| "falsy Null = True"
| "falsy (Str s) = (s = [])"
| "falsy (Num n) = (n = 0)"

datatype exn = TypeError

subsection \<open>\<open>String.prototype.split\<close> and \<open>Number\<close>\<close>

text \<open>
  \<open>s.split(':')\<close> cuts at every colon and keeps empty pieces; the result is never the
  empty array.
\<close>

fun split_on :: "char \<Rightarrow> string \<Rightarrow> string list" where
  "split_on sep [] = [[]]"
| "split_on sep (c # cs) =
     (if c = sep then [] # split_on sep cs
      else (case split_on sep cs of
              [] \<Rightarrow> [[c]]
            | p # ps \<Rightarrow> (c # p) # ps))"

text \<open>
  Array destructuring \<open>const [timeHours, timeMinutes] = ...\<close> reads positions 0 and 1;
  a position past the end gives \<open>undefined\<close>, here \<open>None\<close>.
\<close>

fun nth_opt :: "'a list \<Rightarrow> nat \<Rightarrow> 'a option" where
  "nth_opt [] n = None"
| "nth_opt (x # xs) 0 = Some x"
| "nth_opt (x # xs) (Suc n) = nth_opt xs n"

text \<open>
  The result of \<open>Number(s)\<close> on a string: \<open>NaN\<close>, an infinity, or the decimal value
  \<open>m * 10 ^ e\<close>, kept as the pair \<open>Decimal m e\<close>. The value is the mathematical value
  of the literal; rounding to a binary64 is left out. The only consumer is
  \<open>setHours\<close>, which truncates to an integer, so the two differ only for a fraction
  that lies within rounding distance of an integer.
\<close>

datatype number = NaN | PlusInfinity | MinusInfinity | Decimal int int

text \<open>
  Characters are 8-bit. Of the white space and line terminators that \<open>Number\<close>
  strips, these are TAB, LF, VT, FF, CR, SP and NBSP.
\<close>

definition isStrWhiteSpaceChar :: "char \<Rightarrow> bool" where
  "isStrWhiteSpaceChar c = ((of_char c :: nat) \<in> {9, 10, 11, 12, 13, 32, 160})"

definition trim :: "string \<Rightarrow> string" where
  "trim s = rev (dropWhile isStrWhiteSpaceChar (rev (dropWhile isStrWhiteSpaceChar s)))"

text \<open>The value of a digit \<open>0-9\<close>, \<open>a-f\<close>, \<open>A-F\<close>.\<close>

definition digitValue :: "char \<Rightarrow> nat option" where
  "digitValue c =
     (let n = (of_char c :: nat) in
      if 48 \<le> n \<and> n \<le> 57 then Some (n - 48)
      else if 97 \<le> n \<and> n \<le> 102 then Some (n - 87)
      else if 65 \<le> n \<and> n \<le> 70 then Some (n - 55)
      else None)"

definition isDigit :: "nat \<Rightarrow> char \<Rightarrow> bool" where
  "isDigit radix c = (case digitValue c of None \<Rightarrow> False | Some v \<Rightarrow> v < radix)"

definition digitsValue :: "nat \<Rightarrow> string \<Rightarrow> nat" where
  "digitsValue radix ds =
     foldl (\<lambda>acc c. acc * radix + (case digitValue c of None \<Rightarrow> 0 | Some v \<Rightarrow> v)) 0 ds"

text \<open>\<open>0x\<close>, \<open>0o\<close> and \<open>0b\<close> literals: a prefix and at least one digit, no sign.\<close>

definition NonDecimalIntegerLiteral :: "string \<Rightarrow> nat option" where
  "NonDecimalIntegerLiteral s =
     (case s of
        z # p # ds \<Rightarrow>
          (let radix = (if p = CHR ''x'' \<or> p = CHR ''X'' then 16
                        else if p = CHR ''o'' \<or> p = CHR ''O'' then 8
                        else if p = CHR ''b'' \<or> p = CHR ''B'' then 2
                        else 0 :: nat)
           in if z = CHR ''0'' \<and> radix \<noteq> 0 \<and> ds \<noteq> [] \<and> list_all (isDigit radix) ds
              then Some (digitsValue radix ds) else None)
      | _ \<Rightarrow> None)"

text \<open>An optional sign: \<open>True\<close> for minus, and the rest of the string.\<close>

definition sign :: "string \<Rightarrow> bool \<times> string" where
  "sign s =
     (case s of
        [] \<Rightarrow> (False, [])
      | c # cs \<Rightarrow> if c = CHR ''-'' then (True, cs)
                  else if c = CHR ''+'' then (False, cs)
                  else (False, s))"

text \<open>
  What follows the mantissa: nothing, or \<open>e\<close>/\<open>E\<close>, an optional sign and at least
  one digit.
\<close>

definition ExponentPart :: "string \<Rightarrow> int option" where
  "ExponentPart s =
     (case s of
        [] \<Rightarrow> Some 0
      | c # cs \<Rightarrow>
          (let (neg, ds) = sign cs
           in if (c = CHR ''e'' \<or> c = CHR ''E'') \<and> ds \<noteq> [] \<and> list_all (isDigit 10) ds
              then Some (if neg then - int (digitsValue 10 ds) else int (digitsValue 10 ds))
              else None))"

text \<open>
  \<open>digits . digits? exponent?\<close>, \<open>. digits exponent?\<close> or \<open>digits exponent?\<close>: the
  mantissa as an integer and the power of ten.
\<close>

definition StrUnsignedDecimalLiteral :: "string \<Rightarrow> (int \<times> int) option" where
  "StrUnsignedDecimalLiteral u =
     (let ip = takeWhile (isDigit 10) u;
          r1 = dropWhile (isDigit 10) u;
          (fp, r2) = (case r1 of
                        [] \<Rightarrow> ([], [])
                      | c # cs \<Rightarrow> if c = CHR ''.''
                                  then (takeWhile (isDigit 10) cs, dropWhile (isDigit 10) cs)
                                  else ([], r1))
      in if ip = [] \<and> fp = [] then None
         else (case ExponentPart r2 of
                 None \<Rightarrow> None
               | Some ex \<Rightarrow> Some (int (digitsValue 10 (ip @ fp)), ex - int (length fp))))"

definition StrDecimalLiteral :: "string \<Rightarrow> number" where
  "StrDecimalLiteral s =
     (let (neg, u) = sign s
      in if u = ''Infinity'' then (if neg then MinusInfinity else PlusInfinity)
         else (case StrUnsignedDecimalLiteral u of
                 None \<Rightarrow> NaN
               | Some (m, e) \<Rightarrow> Decimal (if neg then - m else m) e))"

text \<open>\<open>Number(str)\<close>: the empty or blank string is \<open>0\<close>; what is no literal is \<open>NaN\<close>.\<close>

definition Number :: "string \<Rightarrow> number" where
  "Number str =
     (let s = trim str
      in if s = [] then Decimal 0 0
         else (case NonDecimalIntegerLiteral s of
                 Some n \<Rightarrow> Decimal (int n) 0
               | None \<Rightarrow> StrDecimalLiteral s))"

text \<open>\<open>ToNumber\<close> of an argument that is a number or \<open>undefined\<close>.\<close>

definition ToNumber :: "number option \<Rightarrow> number" where
  "ToNumber v = (case v of None \<Rightarrow> NaN | Some n \<Rightarrow> n)"

fun isFinite :: "number \<Rightarrow> bool" where
  "isFinite (Decimal m e) = True"
| "isFinite _ = False"

text \<open>Truncation towards zero; \<open>None\<close> is an infinity.\<close>

fun ToIntegerOrInfinity :: "number \<Rightarrow> int option" where
  "ToIntegerOrInfinity (Decimal m e) =
     Some (if 0 \<le> e then m * 10 ^ nat e else sgn m * (abs m div 10 ^ nat (- e)))"
| "ToIntegerOrInfinity NaN = Some 0"
| "ToIntegerOrInfinity _ = None"

subsection \<open>\<open>Date\<close>\<close>

text \<open>
  A date object holds a time value: milliseconds since the epoch, an integer of
  magnitude at most \<open>8.64e15\<close>, or \<open>NaN\<close> (\<open>None\<close>) for an invalid date. Two things
  depend on the host and are parameters: how a string is parsed as a date
  (ECMAScript fixes the ISO formats only), and the offset of local time
  (\<open>LocalTZA t True\<close> at the UTC instant \<open>t\<close>, \<open>LocalTZA t False\<close> at the local
  time \<open>t\<close>).
\<close>

record env =
  Date_parse :: "string \<Rightarrow> int option"
  LocalTZA :: "int \<Rightarrow> bool \<Rightarrow> int"

definition msPerDay :: int where "msPerDay = 86400000"
definition msPerHour :: int where "msPerHour = 3600000"
definition msPerMinute :: int where "msPerMinute = 60000"
definition msPerSecond :: int where "msPerSecond = 1000"

definition TimeClip :: "int \<Rightarrow> int option" where
  "TimeClip t = (if abs t > 8640000000000000 then None else Some t)"

definition Day :: "int \<Rightarrow> int" where
  "Day t = t div msPerDay"

definition MakeTime :: "number \<Rightarrow> number \<Rightarrow> number \<Rightarrow> number \<Rightarrow> int option" where
  "MakeTime hour minute sec ms =
     (if isFinite hour \<and> isFinite minute \<and> isFinite sec \<and> isFinite ms
      then (case (ToIntegerOrInfinity hour, ToIntegerOrInfinity minute,
                  ToIntegerOrInfinity sec, ToIntegerOrInfinity ms) of
              (Some h, Some m, Some s, Some milli) \<Rightarrow>
                Some (h * msPerHour + m * msPerMinute + s * msPerSecond + milli)
            | _ \<Rightarrow> None)
      else None)"

definition MakeDate :: "int \<Rightarrow> int option \<Rightarrow> int option" where
  "MakeDate day time = (case time of None \<Rightarrow> None | Some tm \<Rightarrow> Some (day * msPerDay + tm))"

text \<open>
  \<open>new Date(v)\<close>: a string is parsed, any other value is converted to a number
  (\<open>undefined\<close> to \<open>NaN\<close>, \<open>null\<close> to \<open>0\<close>); the result is clipped.
\<close>

definition Date :: "env \<Rightarrow> jsval \<Rightarrow> int option" where
  "Date e v =
     (case v of
        Str s \<Rightarrow> (case Date_parse e s of None \<Rightarrow> None | Some tv \<Rightarrow> TimeClip tv)
      | Num n \<Rightarrow> TimeClip n
      | Null \<Rightarrow> TimeClip 0
      | Undefined \<Rightarrow> None)"

text \<open>
  \<open>date.setHours(hour, min, sec, ms)\<close> with all four arguments passed: each goes
  through \<open>ToNumber\<close>, an invalid date stays invalid, and otherwise the time within
  the local day is replaced. Nothing bounds the hour or the minute: an excess carries
  into the day.
\<close>

definition setHours ::
  "env \<Rightarrow> int option \<Rightarrow> number option \<Rightarrow> number option \<Rightarrow> number option \<Rightarrow> number option
     \<Rightarrow> int option" where
  "setHours e dateValue hour minute sec ms =
     (let h = ToNumber hour; m = ToNumber minute; s = ToNumber sec; milli = ToNumber ms
      in case dateValue of
           None \<Rightarrow> None
         | Some tv \<Rightarrow>
             (let t = tv + LocalTZA e tv True
              in case MakeDate (Day t) (MakeTime h m s milli) of
                   None \<Rightarrow> None
                 | Some date \<Rightarrow> TimeClip (date - LocalTZA e date False)))"

subsection \<open>\<open>calculateTimeLeft\<close>\<close>

definition expired :: CountdownState where
  "expired = \<lparr>days = 0, hrs = 0, mins = 0, secs = 0, isExpired = True\<rparr>"

text \<open>
  The target instant:
  \<^verbatim>\<open>
  const [timeHours, timeMinutes] = eventTime.split(':').map(Number);
  const targetDate = new Date(eventDate);
  targetDate.setHours(timeHours, timeMinutes, 0, 0);
  \<close>
\<close>

definition targetDate :: "env \<Rightarrow> jsval \<Rightarrow> string \<Rightarrow> int option" where
  "targetDate e eventDate eventTime =
     (let parts = map Number (split_on CHR '':'' eventTime);
          timeHours = nth_opt parts 0;
          timeMinutes = nth_opt parts 1
      in setHours e (Date e eventDate) timeHours timeMinutes
           (Some (Decimal 0 0)) (Some (Decimal 0 0)))"

text \<open>
  The body of the \<open>try\<close> block. The result is the state handed to \<open>setCountdown\<close>, or
  the exception raised. \<open>now\<close> is the reading of the clock, \<open>new Date().getTime()\<close>.
  Time values and their differences are integers, on which \<open>Math.floor(x / c)\<close> is
  \<open>x div c\<close>; binary64 computes them exactly while magnitudes stay below \<open>2 ^ 53\<close>,
  as they do for every valid date and a clock of the present era. The two calls of
  \<open>console.error\<close> have no effect on the state and are left out.
\<close>

definition calculateTimeLeft_try :: "env \<Rightarrow> jsval \<Rightarrow> jsval \<Rightarrow> int \<Rightarrow> exn + CountdownState" where
  "calculateTimeLeft_try e eventDate eventTime now =
     (if falsy eventDate \<or> falsy eventTime then Inr expired
      else (case eventTime of
              Str time \<Rightarrow>
                (case targetDate e eventDate time of
                   None \<Rightarrow> Inr expired
                 | Some target \<Rightarrow>
                     (let difference = target - now
                      in if difference \<le> 0 then Inr expired
                         else Inr \<lparr>days = difference div (1000 * 60 * 60 * 24),
                                   hrs = rem difference (1000 * 60 * 60 * 24) div (1000 * 60 * 60),
                                   mins = rem difference (1000 * 60 * 60) div (1000 * 60),
                                   secs = rem difference (1000 * 60) div 1000,
                                   isExpired = False\<rparr>))
            | _ \<Rightarrow> Inl TypeError))"

text \<open>The whole function: \<open>catch (error)\<close> sets the expired state.\<close>

definition calculateTimeLeft :: "env \<Rightarrow> jsval \<Rightarrow> jsval \<Rightarrow> int \<Rightarrow> exn + CountdownState" where
  "calculateTimeLeft e eventDate eventTime now =
     (case calculateTimeLeft_try e eventDate eventTime now of
        Inl error \<Rightarrow> Inr expired
      | Inr s \<Rightarrow> Inr s)"

section \<open>Concrete inputs\<close>

text \<open>
  A host in the UTC time zone. It reads the two ISO date-only strings used below, as
  midnight UTC like every host, and takes any other string as no date.
\<close>

definition utc_host :: env where
  "utc_host =
     \<lparr>Date_parse = (\<lambda>s. if s = ''2030-01-01'' then Some 1893456000000
                        else if s = ''2025-01-10'' then Some 1736467200000
                        else None),
      LocalTZA = (\<lambda>t isUTC. 0)\<rparr>"

text \<open>The state of a card when it is mounted.\<close>

definition card0 :: EventCard where
  "card0 =
     \<lparr>isExpanded = False, currentImageIndex = Some 0, isImageFullscreen = False,
      countdown = \<lparr>days = 0, hrs = 0, mins = 0, secs = 0, isExpired = False\<rparr>,
      config = None\<rparr>"

text \<open>
  The time-of-day format as the specification words it: two colon-separated integers,
  hours from 0 to 23 and minutes from 0 to 59.
\<close>

definition spec_time_of_day :: "string \<Rightarrow> bool" where
  "spec_time_of_day t =
     (case split_on CHR '':'' t of
        [h, m] \<Rightarrow> h \<noteq> [] \<and> m \<noteq> [] \<and> list_all (isDigit 10) h \<and> list_all (isDigit 10) m \<and>
                  digitsValue 10 h \<le> 23 \<and> digitsValue 10 m \<le> 59
      | _ \<Rightarrow> False)"

section \<open>Properties of the carousel\<close>

lemma js_rem_nonneg:
  "0 \<le> a \<Longrightarrow> 0 < b \<Longrightarrow> js_rem a b = Some (a mod b)"
  by (cases "a = 0") (simp_all add: js_rem_def rem_def)

lemma nextImage_index:
  "imgs \<noteq> [] \<Longrightarrow> currentImageIndex s = Some i \<Longrightarrow> 0 \<le> i \<Longrightarrow>
   currentImageIndex (nextImage imgs s) = Some ((i + 1) mod int (length imgs))"
  by (simp add: nextImage_def js_rem_nonneg)

lemma previousImage_index:
  "currentImageIndex s = Some i \<Longrightarrow>
   currentImageIndex (previousImage imgs s) =
     Some (if i = 0 then int (length imgs) - 1 else i - 1)"
  by (simp add: previousImage_def)

lemma set_index_same:
  "currentImageIndex s = v \<Longrightarrow> s\<lparr>currentImageIndex := v\<rparr> = s"
  by auto

text \<open>
  The two handlers have no guard of their own. Were \<open>nextImage\<close> to run on an empty
  sequence it would store \<open>NaN\<close>, and \<open>previousImage\<close> from index 0 would store
  \<open>-1\<close>; neither raises.
\<close>

lemma nextImage_empty:
  "currentImageIndex (nextImage [] s) = None"
  by (simp add: nextImage_def js_rem_def split: option.split)

lemma previousImage_empty:
  "currentImageIndex s = Some 0 \<Longrightarrow> currentImageIndex (previousImage [] s) = Some (- 1)"
  by (simp add: previousImage_def)

text \<open>
  C6: for a sequence of length \<open>N > 0\<close> and an index \<open>i \<ge> 0\<close>, \<open>nextImage\<close> sets the
  index to \<open>(i + 1) mod N\<close>, and \<open>previousImage\<close> sets it to \<open>N - 1\<close> when \<open>i = 0\<close>
  and to \<open>i - 1\<close> otherwise. For \<open>N = 3\<close> from index 0, three calls of \<open>nextImage\<close>
  give 1, 2, 0, and one call of \<open>previousImage\<close> gives 2.
\<close>

theorem carousel_advance_retreat:
  "(imgs \<noteq> [] \<longrightarrow> currentImageIndex s = Some i \<longrightarrow> 0 \<le> i \<longrightarrow>
      currentImageIndex (nextImage imgs s) = Some ((i + 1) mod int (length imgs)) \<and>
      currentImageIndex (previousImage imgs s) =
        Some (if i = 0 then int (length imgs) - 1 else i - 1)) \<and>
   (length imgs = 3 \<longrightarrow> currentImageIndex s = Some 0 \<longrightarrow>
      currentImageIndex (nextImage imgs s) = Some 1 \<and>
      currentImageIndex (nextImage imgs (nextImage imgs s)) = Some 2 \<and>
      currentImageIndex (nextImage imgs (nextImage imgs (nextImage imgs s))) = Some 0 \<and>
      currentImageIndex (previousImage imgs s) = Some 2)"
  by (auto simp: nextImage_def previousImage_def js_rem_nonneg js_rem_def rem_def)

theorem carousel_advance_retreat_witness:
  "currentImageIndex (nextImage [''a'', ''b'', ''c''] (card0\<lparr>currentImageIndex := Some 2\<rparr>)) = Some 0 \<and>
   currentImageIndex (previousImage [''a'', ''b'', ''c''] (card0\<lparr>currentImageIndex := Some 2\<rparr>)) = Some 1 \<and>
   currentImageIndex (nextImage [''a'', ''b'', ''c''] card0) = Some 1 \<and>
   currentImageIndex (nextImage [''a'', ''b'', ''c''] (nextImage [''a'', ''b'', ''c''] card0)) = Some 2 \<and>
   currentImageIndex
     (nextImage [''a'', ''b'', ''c''] (nextImage [''a'', ''b'', ''c''] (nextImage [''a'', ''b'', ''c''] card0)))
     = Some 0 \<and>
   currentImageIndex (previousImage [''a'', ''b'', ''c''] card0) = Some 2"
  using carousel_advance_retreat [of "[''a'', ''b'', ''c'']" "card0\<lparr>currentImageIndex := Some 2\<rparr>" 2]
    carousel_advance_retreat [of "[''a'', ''b'', ''c'']" card0 0]
  by (simp add: card0_def)

lemma nextImage_in_range:
  "imgs \<noteq> [] \<Longrightarrow> currentImageIndex s = Some i \<Longrightarrow> 0 \<le> i \<Longrightarrow> i < int (length imgs) \<Longrightarrow>
   \<exists>j. currentImageIndex (nextImage imgs s) = Some j \<and> 0 \<le> j \<and> j < int (length imgs)"
  by (simp add: nextImage_index)

lemma previousImage_in_range:
  "imgs \<noteq> [] \<Longrightarrow> currentImageIndex s = Some i \<Longrightarrow> 0 \<le> i \<Longrightarrow> i < int (length imgs) \<Longrightarrow>
   \<exists>j. currentImageIndex (previousImage imgs s) = Some j \<and> 0 \<le> j \<and> j < int (length imgs)"
  by (simp add: previousImage_index)

text \<open>
  C7: for a sequence of length \<open>N > 0\<close> and a starting index in \<open>[0, N)\<close>, any number
  of calls of \<open>nextImage\<close> and \<open>previousImage\<close>, in any order, leaves the index an
  integer in \<open>[0, N)\<close>.
\<close>

theorem navigate_in_range:
  "imgs \<noteq> [] \<Longrightarrow> currentImageIndex s = Some i \<Longrightarrow> 0 \<le> i \<Longrightarrow> i < int (length imgs) \<Longrightarrow>
   \<exists>j. currentImageIndex (navigate imgs ns s) = Some j \<and> 0 \<le> j \<and> j < int (length imgs)"
proof (induction ns arbitrary: s i)
  case Nil
  then show ?case by simp
next
  case (Cons n ns)
  show ?case
  proof (cases n)
    case Advance
    from nextImage_in_range [OF Cons.prems] obtain j where
      "currentImageIndex (nextImage imgs s) = Some j" "0 \<le> j" "j < int (length imgs)" by blast
    from Cons.IH [OF Cons.prems(1) this] show ?thesis using Advance by simp
  next
    case Retreat
    from previousImage_in_range [OF Cons.prems] obtain j where
      "currentImageIndex (previousImage imgs s) = Some j" "0 \<le> j" "j < int (length imgs)" by blast
    from Cons.IH [OF Cons.prems(1) this] show ?thesis using Retreat by simp
  qed
qed

theorem navigate_in_range_witness:
  "\<exists>j. currentImageIndex
          (navigate (allImages (Some ''a'') [''b'', ''c''])
             [Retreat, Advance, Advance, Retreat, Retreat] card0) = Some j
       \<and> 0 \<le> j \<and> j < 3"
  using navigate_in_range [of "allImages (Some ''a'') [''b'', ''c'']" card0 0
      "[Retreat, Advance, Advance, Retreat, Retreat]"]
  by (simp add: card0_def allImages_def)

text \<open>
  C8: with an empty image sequence the modulo of \<open>nextImage\<close> is never computed,
  because the handler is never run: the only control on the page is the expand button,
  so any click that happens leaves the index (and the fullscreen flag) as it was.
\<close>

theorem no_navigation_without_images:
  "length imgs = 0 \<Longrightarrow> click imgs c s = Some s' \<Longrightarrow>
   c = ExpandButton \<and> currentImageIndex s' = currentImageIndex s \<and>
   isImageFullscreen s' = isImageFullscreen s"
  by (cases c) (auto simp: click_def split: if_splits)

theorem no_navigation_without_images_witness:
  "click (allImages None []) ExpandButton (card0\<lparr>config := Some ''#ff0000''\<rparr>)
     = Some (card0\<lparr>config := Some ''#ff0000'', isExpanded := True\<rparr>) \<and>
   currentImageIndex (card0\<lparr>config := Some ''#ff0000'', isExpanded := True\<rparr>) = Some 0"
  using no_navigation_without_images [of "allImages None []" ExpandButton
      "card0\<lparr>config := Some ''#ff0000''\<rparr>"
      "card0\<lparr>config := Some ''#ff0000'', isExpanded := True\<rparr>"]
  by (simp add: click_def card0_def allImages_def)

text \<open>
  C9: \<open>toggleImageFullscreen\<close> negates the fullscreen flag and changes no other cell of
  the component's state: the index, the expansion flag, the countdown and the
  configuration are as before.
\<close>

theorem toggleImageFullscreen_frame:
  "isImageFullscreen (toggleImageFullscreen s) = (\<not> isImageFullscreen s) \<and>
   currentImageIndex (toggleImageFullscreen s) = currentImageIndex s \<and>
   isExpanded (toggleImageFullscreen s) = isExpanded s \<and>
   countdown (toggleImageFullscreen s) = countdown s \<and>
   config (toggleImageFullscreen s) = config s"
  by (simp add: toggleImageFullscreen_def)

text \<open>
  C10: for a sequence of length \<open>N > 0\<close> and an index in \<open>[0, N)\<close>, \<open>previousImage\<close>
  undoes \<open>nextImage\<close> and \<open>nextImage\<close> undoes \<open>previousImage\<close>.
\<close>

theorem advance_retreat_inverse:
  "imgs \<noteq> [] \<Longrightarrow> currentImageIndex s = Some i \<Longrightarrow> 0 \<le> i \<Longrightarrow> i < int (length imgs) \<Longrightarrow>
   previousImage imgs (nextImage imgs s) = s \<and> nextImage imgs (previousImage imgs s) = s"
proof -
  assume ne: "imgs \<noteq> []" and idx: "currentImageIndex s = Some i"
    and lo: "0 \<le> i" and hi: "i < int (length imgs)"
  let ?n = "int (length imgs)"
  have n_pos: "0 < ?n" using ne by simp
  have fwd: "(if (i + 1) mod ?n = 0 then ?n - 1 else (i + 1) mod ?n - 1) = i"
  proof (cases "i + 1 = ?n")
    case True
    then show ?thesis by simp
  next
    case False
    then have "(i + 1) mod ?n = i + 1" using lo hi by simp
    then show ?thesis using lo by simp
  qed
  have "previousImage imgs (nextImage imgs s) = s"
    using idx lo n_pos fwd
    by (auto simp add: previousImage_def nextImage_def js_rem_nonneg set_index_same
        split: if_splits)
  moreover have "nextImage imgs (previousImage imgs s) = s"
  proof (cases "i = 0")
    case True
    then show ?thesis using idx n_pos
      by (simp add: previousImage_def nextImage_def js_rem_nonneg set_index_same)
  next
    case False
    then show ?thesis using idx lo hi n_pos
      by (simp add: previousImage_def nextImage_def js_rem_nonneg set_index_same)
  qed
  ultimately show ?thesis by simp
qed

theorem advance_retreat_inverse_witness:
  "previousImage [''a'', ''b'', ''c''] (nextImage [''a'', ''b'', ''c''] (card0\<lparr>currentImageIndex := Some 2\<rparr>))
     = card0\<lparr>currentImageIndex := Some 2\<rparr> \<and>
   nextImage [''a'', ''b'', ''c''] (previousImage [''a'', ''b'', ''c''] (card0\<lparr>currentImageIndex := Some 2\<rparr>))
     = card0\<lparr>currentImageIndex := Some 2\<rparr>"
  using advance_retreat_inverse [of "[''a'', ''b'', ''c'']" "card0\<lparr>currentImageIndex := Some 2\<rparr>" 2]
  by simp

section \<open>Properties of the countdown\<close>

subsection \<open>The paths through \<open>calculateTimeLeft\<close>\<close>

lemma rem_pos: "0 < a \<Longrightarrow> 0 < b \<Longrightarrow> rem a b = a mod b"
  by (simp add: rem_def)

lemma calculateTimeLeft_future:
  assumes "\<not> falsy eventDate" "time \<noteq> []"
    and "targetDate e eventDate time = Some target" "now < target"
  shows "calculateTimeLeft e eventDate (Str time) now =
     Inr \<lparr>days = (target - now) div 86400000,
          hrs = (target - now) mod 86400000 div 3600000,
          mins = (target - now) mod 3600000 div 60000,
          secs = (target - now) mod 60000 div 1000,
          isExpired = False\<rparr>"
  using assms
  by (simp add: calculateTimeLeft_def calculateTimeLeft_try_def rem_pos Let_def)

lemma calculateTimeLeft_past:
  assumes "targetDate e eventDate time = Some target" "target \<le> now"
  shows "calculateTimeLeft e eventDate (Str time) now = Inr expired"
  using assms
  by (simp add: calculateTimeLeft_def calculateTimeLeft_try_def Let_def)

lemma calculateTimeLeft_cases:
  "calculateTimeLeft e eventDate eventTime now = Inr expired \<or>
   (\<exists>time target. eventTime = Str time \<and> \<not> falsy eventDate \<and> time \<noteq> [] \<and>
      targetDate e eventDate time = Some target \<and> now < target)"
  by (cases eventTime)
     (auto simp: calculateTimeLeft_def calculateTimeLeft_try_def Let_def
           split: option.splits)

lemma targetDate_invalid:
  assumes "Date e eventDate = None \<or>
           \<not> isFinite (ToNumber (nth_opt (map Number (split_on CHR '':'' time)) 0)) \<or>
           \<not> isFinite (ToNumber (nth_opt (map Number (split_on CHR '':'' time)) 1))"
  shows "targetDate e eventDate time = None"
  using assms
  by (auto simp: targetDate_def setHours_def MakeTime_def MakeDate_def Let_def
           split: option.splits)

lemma calculateTimeLeft_no_target:
  "eventTime = Str time \<Longrightarrow> targetDate e eventDate time = None \<Longrightarrow>
   calculateTimeLeft e eventDate eventTime now = Inr expired"
  by (simp add: calculateTimeLeft_def calculateTimeLeft_try_def)

lemma calculateTimeLeft_falsy:
  "falsy eventDate \<or> falsy eventTime \<Longrightarrow>
   calculateTimeLeft e eventDate eventTime now = Inr expired"
  by (auto simp: calculateTimeLeft_def calculateTimeLeft_try_def)

lemma calculateTimeLeft_caught:
  "calculateTimeLeft_try e eventDate eventTime now = Inl x \<Longrightarrow>
   calculateTimeLeft e eventDate eventTime now = Inr expired"
  by (simp add: calculateTimeLeft_def)

lemma calculateTimeLeft_returns:
  "\<exists>s. calculateTimeLeft e eventDate eventTime now = Inr s"
  by (simp add: calculateTimeLeft_def split: sum.split)

subsection \<open>Buckets of milliseconds\<close>

lemma mod_div_cancel:
  fixes d :: int
  assumes "0 < a" "0 \<le> b"
  shows "d mod (a * b) div a = d div a mod b"
proof -
  have "d mod (a * b) = a * (d div a mod b) + d mod a"
    using assms by (simp add: zmod_zmult2_eq)
  then show ?thesis using assms by simp
qed

lemma seconds_split:
  fixes s :: int
  shows "(s div 86400) * 86400 + (s mod 86400 div 3600) * 3600 + (s mod 3600 div 60) * 60
           + s mod 60 = s"
proof -
  have a: "s mod 3600 mod 60 = s mod 60" by (simp add: mod_mod_cancel)
  have b: "s mod 86400 mod 3600 = s mod 3600" by (simp add: mod_mod_cancel)
  have "(s mod 3600 div 60) * 60 + s mod 60 = s mod 3600"
    using div_mult_mod_eq [of "s mod 3600" 60] a by simp
  moreover have "(s mod 86400 div 3600) * 3600 + s mod 3600 = s mod 86400"
    using div_mult_mod_eq [of "s mod 86400" 3600] b by simp
  moreover have "(s div 86400) * 86400 + s mod 86400 = s"
    by simp
  ultimately show ?thesis by linarith
qed

lemma bucket:
  fixes d :: int
  assumes "0 < a" "0 \<le> b" "0 \<le> c"
  shows "d mod (a * (b * c)) div (a * b) = d div a mod (b * c) div b"
proof -
  have "d mod (a * (b * c)) div (a * b) = d mod (a * (b * c)) div a div b"
    using assms(2) by (rule zdiv_zmult2_eq)
  also have "d mod (a * (b * c)) div a = d div a mod (b * c)"
    using assms by (intro mod_div_cancel) simp_all
  finally show ?thesis .
qed

lemma milliseconds_split:
  fixes d :: int
  shows "d div 86400000 = d div 1000 div 86400"
    and "d mod 86400000 div 3600000 = d div 1000 mod 86400 div 3600"
    and "d mod 3600000 div 60000 = d div 1000 mod 3600 div 60"
    and "d mod 60000 div 1000 = d div 1000 mod 60"
proof -
  have day: "(86400000::int) = 1000 * 86400" and day': "(86400::int) = 3600 * 24"
    and hour: "(3600000::int) = 1000 * 3600" and hour': "(3600::int) = 60 * 60"
    and minute: "(60000::int) = 1000 * 60"
    by simp_all
  show "d div 86400000 = d div 1000 div 86400"
    unfolding day by (rule zdiv_zmult2_eq) simp
  have "d mod (1000 * (3600 * 24)) div (1000 * 3600) = d div 1000 mod (3600 * 24) div 3600"
    by (rule bucket) simp_all
  then show "d mod 86400000 div 3600000 = d div 1000 mod 86400 div 3600"
    unfolding day hour day' .
  have "d mod (1000 * (60 * 60)) div (1000 * 60) = d div 1000 mod (60 * 60) div 60"
    by (rule bucket) simp_all
  then show "d mod 3600000 div 60000 = d div 1000 mod 3600 div 60"
    unfolding hour minute hour' .
  show "d mod 60000 div 1000 = d div 1000 mod 60"
    unfolding minute by (rule mod_div_cancel) simp_all
qed

lemma bucket_bounds:
  fixes d :: int
  assumes "0 < a" "0 < c"
  shows "0 \<le> d mod (a * c) div a" and "d mod (a * c) div a < c"
proof -
  have eq: "d mod (a * c) div a = d div a mod c"
    using assms by (intro mod_div_cancel) simp_all
  show "0 \<le> d mod (a * c) div a" unfolding eq using assms(2) by (rule pos_mod_sign)
  show "d mod (a * c) div a < c" unfolding eq using assms(2) by (rule pos_mod_bound)
qed

lemma fields_in_range:
  fixes d :: int
  assumes "0 < d"
  shows "0 \<le> d div 86400000"
    and "0 \<le> d mod 86400000 div 3600000" "d mod 86400000 div 3600000 \<le> 23"
    and "0 \<le> d mod 3600000 div 60000" "d mod 3600000 div 60000 \<le> 59"
    and "0 \<le> d mod 60000 div 1000" "d mod 60000 div 1000 \<le> 59"
proof -
  have day: "(86400000::int) = 3600000 * 24" and hour: "(3600000::int) = 60000 * 60"
    and minute: "(60000::int) = 1000 * 60"
    by simp_all
  have le23: "x < 24 \<Longrightarrow> x \<le> 23" and le59: "x < 60 \<Longrightarrow> x \<le> 59" for x :: int
    by simp_all
  have "0 \<le> d" using assms by simp
  then show "0 \<le> d div 86400000" by (simp only: pos_imp_zdiv_nonneg_iff zero_less_numeral)
  have "0 \<le> d mod (3600000 * 24) div 3600000" by (rule bucket_bounds) simp_all
  then show "0 \<le> d mod 86400000 div 3600000" unfolding day .
  have "d mod (3600000 * 24) div 3600000 < 24" by (rule bucket_bounds) simp_all
  then have "d mod (3600000 * 24) div 3600000 \<le> 23" by (rule le23)
  then show "d mod 86400000 div 3600000 \<le> 23" unfolding day .
  have "0 \<le> d mod (60000 * 60) div 60000" by (rule bucket_bounds) simp_all
  then show "0 \<le> d mod 3600000 div 60000" unfolding hour .
  have "d mod (60000 * 60) div 60000 < 60" by (rule bucket_bounds) simp_all
  then have "d mod (60000 * 60) div 60000 \<le> 59" by (rule le59)
  then show "d mod 3600000 div 60000 \<le> 59" unfolding hour .
  have "0 \<le> d mod (1000 * 60) div 1000" by (rule bucket_bounds) simp_all
  then show "0 \<le> d mod 60000 div 1000" unfolding minute .
  have "d mod (1000 * 60) div 1000 < 60" by (rule bucket_bounds) simp_all
  then have "d mod (1000 * 60) div 1000 \<le> 59" by (rule le59)
  then show "d mod 60000 div 1000 \<le> 59" unfolding minute .
qed

lemma calculateTimeLeft_fields:
  assumes "calculateTimeLeft e eventDate eventTime now = Inr s"
  shows "0 \<le> days s \<and> 0 \<le> hrs s \<and> hrs s \<le> 23 \<and> 0 \<le> mins s \<and> mins s \<le> 59 \<and>
         0 \<le> secs s \<and> secs s \<le> 59 \<and>
         (isExpired s \<longrightarrow> days s = 0 \<and> hrs s = 0 \<and> mins s = 0 \<and> secs s = 0)"
proof -
  from calculateTimeLeft_cases [of e eventDate eventTime now]
  consider "calculateTimeLeft e eventDate eventTime now = Inr expired"
    | time target where "eventTime = Str time" "\<not> falsy eventDate" "time \<noteq> []"
        "targetDate e eventDate time = Some target" "now < target"
    by blast
  then show ?thesis
  proof cases
    case 1
    with assms have "s = expired" by simp
    then show ?thesis by (simp add: expired_def)
  next
    case 2
    define d where "d = target - now"
    define dd where "dd = d div 86400000"
    define hh where "hh = d mod 86400000 div 3600000"
    define mm where "mm = d mod 3600000 div 60000"
    define ss where "ss = d mod 60000 div 1000"
    have pos: "0 < d" using 2(5) by (simp add: d_def)
    have bounds: "0 \<le> dd" "0 \<le> hh" "hh \<le> 23" "0 \<le> mm" "mm \<le> 59" "0 \<le> ss" "ss \<le> 59"
      unfolding dd_def hh_def mm_def ss_def by (rule fields_in_range [OF pos])+
    from calculateTimeLeft_future [OF 2(2,3,4,5)] assms 2(1)
    have "s = \<lparr>days = dd, hrs = hh, mins = mm, secs = ss, isExpired = False\<rparr>"
      unfolding dd_def hh_def mm_def ss_def d_def by simp
    with bounds show ?thesis by simp
  qed
qed

subsection \<open>The claims\<close>

text \<open>
  C1: when both props are non-empty, the target instant is valid and
  \<open>difference = target - now\<close> is positive, \<open>calculateTimeLeft\<close> sets a state that is
  not expired, with \<open>days = difference div 86400000\<close>,
  \<open>hrs = difference mod 86400000 div 3600000\<close>,
  \<open>mins = difference mod 3600000 div 60000\<close> and
  \<open>secs = difference mod 60000 div 1000\<close>; the four fields add up to
  \<open>difference div 1000\<close> seconds.
\<close>

theorem countdown_decomposition:
  assumes "\<not> falsy eventDate" and "time \<noteq> []"
    and "targetDate e eventDate time = Some target"
    and "difference = target - now" and "0 < difference"
  shows "\<exists>s. calculateTimeLeft e eventDate (Str time) now = Inr s \<and>
           isExpired s = False \<and>
           days s = difference div 86400000 \<and>
           hrs s = difference mod 86400000 div 3600000 \<and>
           mins s = difference mod 3600000 div 60000 \<and>
           secs s = difference mod 60000 div 1000 \<and>
           days s * 86400 + hrs s * 3600 + mins s * 60 + secs s = difference div 1000"
proof -
  let ?s = "\<lparr>days = difference div 86400000,
             hrs = difference mod 86400000 div 3600000,
             mins = difference mod 3600000 div 60000,
             secs = difference mod 60000 div 1000,
             isExpired = False\<rparr>"
  have "now < target" using assms(4,5) by simp
  from calculateTimeLeft_future [OF assms(1,2,3) this]
  have run: "calculateTimeLeft e eventDate (Str time) now = Inr ?s"
    using assms(4) by simp
  have total: "difference div 86400000 * 86400 + difference mod 86400000 div 3600000 * 3600
          + difference mod 3600000 div 60000 * 60 + difference mod 60000 div 1000
        = difference div 1000"
    unfolding milliseconds_split [of difference]
    by (rule seconds_split)
  have sel: "isExpired ?s = False" "days ?s = difference div 86400000"
    "hrs ?s = difference mod 86400000 div 3600000"
    "mins ?s = difference mod 3600000 div 60000"
    "secs ?s = difference mod 60000 div 1000"
    by simp_all
  have "days ?s * 86400 + hrs ?s * 3600 + mins ?s * 60 + secs ?s = difference div 1000"
    unfolding sel by (rule total)
  with run sel show ?thesis by blast
qed

theorem countdown_decomposition_witness:
  "calculateTimeLeft utc_host (Str ''2025-01-10'') (Str ''14:00'') 1736344800000 =
     Inr \<lparr>days = 2, hrs = 0, mins = 0, secs = 0, isExpired = False\<rparr> \<and>
   calculateTimeLeft utc_host (Str ''2030-01-01'') (Str ''01:01'') (1893456000000 - 1000) =
     Inr \<lparr>days = 0, hrs = 1, mins = 1, secs = 1, isExpired = False\<rparr>"
proof -
  have t1: "targetDate utc_host (Str ''2025-01-10'') ''14:00'' = Some 1736517600000"
    by code_simp
  have t2: "targetDate utc_host (Str ''2030-01-01'') ''01:01'' = Some 1893459660000"
    by code_simp
  from countdown_decomposition [of "Str ''2025-01-10''" "''14:00''" utc_host 1736517600000
      172800000 1736344800000] t1
  have "calculateTimeLeft utc_host (Str ''2025-01-10'') (Str ''14:00'') 1736344800000 =
     Inr \<lparr>days = 2, hrs = 0, mins = 0, secs = 0, isExpired = False\<rparr>"
    by auto
  moreover
  from countdown_decomposition [of "Str ''2030-01-01''" "''01:01''" utc_host 1893459660000
      3661000 "1893456000000 - 1000"] t2
  have "calculateTimeLeft utc_host (Str ''2030-01-01'') (Str ''01:01'') (1893456000000 - 1000) =
     Inr \<lparr>days = 0, hrs = 1, mins = 1, secs = 1, isExpired = False\<rparr>"
    by auto
  ultimately show ?thesis by simp
qed

text \<open>
  C2: when the target instant is valid and \<open>difference = target - now\<close> is zero or
  negative, \<open>calculateTimeLeft\<close> sets exactly the expired state.
\<close>

theorem countdown_expired_from_target_on:
  assumes "targetDate e eventDate time = Some target"
    and "difference = target - now" and "difference \<le> 0"
  shows "calculateTimeLeft e eventDate (Str time) now =
           Inr \<lparr>days = 0, hrs = 0, mins = 0, secs = 0, isExpired = True\<rparr>"
proof -
  have "target \<le> now" using assms(2,3) by simp
  from calculateTimeLeft_past [OF assms(1) this] show ?thesis by (simp add: expired_def)
qed

theorem countdown_expired_from_target_on_witness:
  "calculateTimeLeft utc_host (Str ''2025-01-10'') (Str ''14:00'') 1736517600000 =
     Inr \<lparr>days = 0, hrs = 0, mins = 0, secs = 0, isExpired = True\<rparr> \<and>
   calculateTimeLeft utc_host (Str ''2025-01-10'') (Str ''14:00'') 1736517600001 =
     Inr \<lparr>days = 0, hrs = 0, mins = 0, secs = 0, isExpired = True\<rparr>"
proof -
  have t: "targetDate utc_host (Str ''2025-01-10'') ''14:00'' = Some 1736517600000"
    by code_simp
  show ?thesis
    using countdown_expired_from_target_on [OF t, of 0 1736517600000]
      countdown_expired_from_target_on [OF t, of "- 1" 1736517600001]
    by simp
qed


text \<open>
  C3, as worded, asks that a time of day outside the format (two integers, hours up
  to 23 and minutes up to 59) gives the expired state. The string \<open>25:00\<close> is outside
  the format, and the function counts down to 01:00 of the next day: from midnight of
  2030-01-01 that is one day and one hour.
\<close>

theorem out_of_range_time_not_rejected:
  "\<not> spec_time_of_day ''25:00'' \<and>
   calculateTimeLeft utc_host (Str ''2030-01-01'') (Str ''25:00'') 1893456000000 =
     Inr \<lparr>days = 1, hrs = 1, mins = 0, secs = 0, isExpired = False\<rparr>"
proof -
  have "\<not> spec_time_of_day ''25:00''" by code_simp
  moreover have "calculateTimeLeft utc_host (Str ''2030-01-01'') (Str ''25:00'') 1893456000000 =
     Inr \<lparr>days = 1, hrs = 1, mins = 0, secs = 0, isExpired = False\<rparr>"
    by code_simp
  ultimately show ?thesis by simp
qed

text \<open>
  C3, as the code has it: \<open>calculateTimeLeft\<close> sets the expired state when
  \<open>eventDate\<close> or \<open>eventTime\<close> is absent or empty, when the date does not parse, and
  when the first or the second colon-separated field of the time is missing or is not
  a finite number. The fields are not checked against a range.
\<close>

theorem invalid_input_expired:
  assumes "falsy eventDate \<or> falsy eventTime \<or> Date e eventDate = None \<or>
           (\<exists>time. eventTime = Str time \<and>
              (\<not> isFinite (ToNumber (nth_opt (map Number (split_on CHR '':'' time)) 0)) \<or>
               \<not> isFinite (ToNumber (nth_opt (map Number (split_on CHR '':'' time)) 1))))"
  shows "calculateTimeLeft e eventDate eventTime now =
           Inr \<lparr>days = 0, hrs = 0, mins = 0, secs = 0, isExpired = True\<rparr>"
proof -
  have "calculateTimeLeft e eventDate eventTime now = Inr expired"
  proof (cases "falsy eventDate \<or> falsy eventTime")
    case True
    then show ?thesis by (rule calculateTimeLeft_falsy)
  next
    case False
    show ?thesis
    proof (cases eventTime)
      case (Str time)
      with assms False have "targetDate e eventDate time = None"
        by (intro targetDate_invalid) auto
      with Str show ?thesis by (simp add: calculateTimeLeft_no_target)
    next
      case Undefined
      with False show ?thesis by simp
    next
      case Null
      with False show ?thesis by simp
    next
      case (Num n)
      then show ?thesis
        by (simp add: calculateTimeLeft_def calculateTimeLeft_try_def)
    qed
  qed
  then show ?thesis by (simp add: expired_def)
qed

theorem invalid_input_expired_witness:
  "calculateTimeLeft utc_host (Str []) (Str ''14:00'') 0 =
     Inr \<lparr>days = 0, hrs = 0, mins = 0, secs = 0, isExpired = True\<rparr> \<and>
   calculateTimeLeft utc_host (Str ''2030-01-01'') Undefined 0 =
     Inr \<lparr>days = 0, hrs = 0, mins = 0, secs = 0, isExpired = True\<rparr> \<and>
   calculateTimeLeft utc_host (Str ''next friday'') (Str ''14:00'') 0 =
     Inr \<lparr>days = 0, hrs = 0, mins = 0, secs = 0, isExpired = True\<rparr> \<and>
   calculateTimeLeft utc_host (Str ''2030-01-01'') (Str ''2pm'') 0 =
     Inr \<lparr>days = 0, hrs = 0, mins = 0, secs = 0, isExpired = True\<rparr> \<and>
   calculateTimeLeft utc_host (Str ''2030-01-01'') (Str ''14'') 0 =
     Inr \<lparr>days = 0, hrs = 0, mins = 0, secs = 0, isExpired = True\<rparr>"
proof -
  have d: "Date utc_host (Str ''next friday'') = None"
    by (simp add: Date_def utc_host_def)
  have h: "\<not> isFinite (ToNumber (nth_opt (map Number (split_on CHR '':'' ''2pm'')) 0))"
    by code_simp
  have m: "\<not> isFinite (ToNumber (nth_opt (map Number (split_on CHR '':'' ''14'')) 1))"
    by code_simp
  show ?thesis
    using invalid_input_expired [of "Str []" "Str ''14:00''" utc_host 0]
      invalid_input_expired [of "Str ''2030-01-01''" Undefined utc_host 0]
      invalid_input_expired [of "Str ''next friday''" "Str ''14:00''" utc_host 0] d
      invalid_input_expired [of "Str ''2030-01-01''" "Str ''2pm''" utc_host 0] h
      invalid_input_expired [of "Str ''2030-01-01''" "Str ''14''" utc_host 0] m
    by simp
qed

text \<open>
  C4: for every input, \<open>calculateTimeLeft\<close> returns normally with a state whose
  fields are in range, and an exception raised inside the \<open>try\<close> block ends in the
  expired state.
\<close>

theorem countdown_never_raises:
  "(\<exists>s. calculateTimeLeft e eventDate eventTime now = Inr s \<and>
        0 \<le> days s \<and> 0 \<le> hrs s \<and> hrs s \<le> 23 \<and> 0 \<le> mins s \<and> mins s \<le> 59 \<and>
        0 \<le> secs s \<and> secs s \<le> 59) \<and>
   (\<forall>x. calculateTimeLeft_try e eventDate eventTime now = Inl x \<longrightarrow>
        calculateTimeLeft e eventDate eventTime now =
          Inr \<lparr>days = 0, hrs = 0, mins = 0, secs = 0, isExpired = True\<rparr>)"
proof -
  obtain s where s: "calculateTimeLeft e eventDate eventTime now = Inr s"
    using calculateTimeLeft_returns by blast
  from calculateTimeLeft_fields [OF s] s
  have "\<exists>s. calculateTimeLeft e eventDate eventTime now = Inr s \<and>
        0 \<le> days s \<and> 0 \<le> hrs s \<and> hrs s \<le> 23 \<and> 0 \<le> mins s \<and> mins s \<le> 59 \<and>
        0 \<le> secs s \<and> secs s \<le> 59" by blast
  moreover have "\<forall>x. calculateTimeLeft_try e eventDate eventTime now = Inl x \<longrightarrow>
        calculateTimeLeft e eventDate eventTime now =
          Inr \<lparr>days = 0, hrs = 0, mins = 0, secs = 0, isExpired = True\<rparr>"
    using calculateTimeLeft_caught [of e eventDate eventTime now] by (simp add: expired_def)
  ultimately show ?thesis by blast
qed

theorem countdown_never_raises_witness:
  "calculateTimeLeft_try utc_host (Str ''2030-01-01'') (Num 1400) 0 = Inl TypeError \<and>
   calculateTimeLeft utc_host (Str ''2030-01-01'') (Num 1400) 0 =
     Inr \<lparr>days = 0, hrs = 0, mins = 0, secs = 0, isExpired = True\<rparr>"
proof -
  have t: "calculateTimeLeft_try utc_host (Str ''2030-01-01'') (Num 1400) 0 = Inl TypeError"
    by (simp add: calculateTimeLeft_try_def)
  with countdown_never_raises [of utc_host "Str ''2030-01-01''" "Num 1400" 0]
  show ?thesis by simp
qed

text \<open>
  C5: every state that \<open>calculateTimeLeft\<close> sets has \<open>days \<ge> 0\<close>, \<open>hrs\<close> in 0..23,
  \<open>mins\<close> and \<open>secs\<close> in 0..59, and all four are zero when \<open>isExpired\<close> is true.
\<close>

theorem countdown_state_invariant:
  assumes "calculateTimeLeft e eventDate eventTime now = Inr s"
  shows "0 \<le> days s \<and> 0 \<le> hrs s \<and> hrs s \<le> 23 \<and> 0 \<le> mins s \<and> mins s \<le> 59 \<and>
         0 \<le> secs s \<and> secs s \<le> 59 \<and>
         (isExpired s \<longrightarrow> days s = 0 \<and> hrs s = 0 \<and> mins s = 0 \<and> secs s = 0)"
  using assms by (rule calculateTimeLeft_fields)

theorem countdown_state_invariant_witness:
  "calculateTimeLeft utc_host (Str ''2030-01-01'') (Str ''12:75:99'') 1893455000000 =
     Inr \<lparr>days = 0, hrs = 13, mins = 31, secs = 40, isExpired = False\<rparr> \<and>
   hrs \<lparr>days = 0, hrs = 13, mins = 31, secs = 40, isExpired = False\<rparr> \<le> 23 \<and>
   mins \<lparr>days = 0, hrs = 13, mins = 31, secs = 40, isExpired = False\<rparr> \<le> 59 \<and>
   secs \<lparr>days = 0, hrs = 13, mins = 31, secs = 40, isExpired = False\<rparr> \<le> 59 \<and>
   calculateTimeLeft utc_host (Str ''2030-01-01'') (Str ''12:00'') 1893499200000 = Inr expired \<and>
   isExpired expired \<and> days expired = 0 \<and> hrs expired = 0 \<and> mins expired = 0 \<and>
   secs expired = 0"
proof -
  have r: "calculateTimeLeft utc_host (Str ''2030-01-01'') (Str ''12:75:99'') 1893455000000 =
     Inr \<lparr>days = 0, hrs = 13, mins = 31, secs = 40, isExpired = False\<rparr>"
    by code_simp
  have x: "calculateTimeLeft utc_host (Str ''2030-01-01'') (Str ''12:00'') 1893499200000 =
     Inr expired"
    by code_simp
  have "isExpired expired" by (simp add: expired_def)
  with countdown_state_invariant [OF r] countdown_state_invariant [OF x] r x
  show ?thesis by blast
qed

end
